theory Spec2Isabelle
  imports Main
begin

section \<open>Symbols, diagnostics and the evaluation context\<close>

text \<open>
  The semantic core of the SystemVerilog front end, embedded function by function.
  Source locations and ranges play no part in any property below and are left out of
  every diagnostic and node; a pointer to a symbol is replaced by the symbol's record.
  A value symbol that a frame keeps a local for carries the address of its object, and a
  pointer to it, as the key of the local, is that address: two symbols of one name are
  two objects.
\<close>

datatype SymbolKind =
    Root | CompilationUnit | Package | Module | GenerateBlock
  | ProceduralBlock | StatementBlock | Subroutine | Variable | Parameter
  | ClassType | TypeAlias
  | ScalarType | PredefinedIntegerType | FloatingType | StringType
  | VoidType | ErrorType

datatype SubroutineKind = Function | Task

text \<open>
  Modelled from the spec: \<open>bitmask<MethodFlags>\<close>, whose enumeration and \<open>has\<close> are
  declared outside the given sources. The flags that \<open>MiscExpressions.cpp\<close> names are
  the constructors, a mask is the set of its flags, and \<open>has\<close> is true when some flag of
  the mask is set (a virtual, a pure or a constructor method is not constant).
\<close>

datatype MethodFlags = Virtual | Pure | Static | Constructor | DPIImport | NotConst

definition has :: "MethodFlags set \<Rightarrow> MethodFlags set \<Rightarrow> bool" where
  "has fl m = (fl \<inter> m \<noteq> {})"

datatype ArgumentDirection = In | Out | InOut | Ref | ConstRef

text \<open>
  The type of an expression or of a symbol, as the binder and the evaluator read it: the
  kind of its canonical type, which is all that \<open>isVoid\<close> and \<open>isError\<close> look at.
\<close>

type_synonym CanonicalKind = SymbolKind

definition isVoid :: "CanonicalKind \<Rightarrow> bool" where
  "isVoid t = (t = VoidType)"

definition isError :: "CanonicalKind \<Rightarrow> bool" where
  "isError t = (t = ErrorType)"

datatype ConstantValue =
    CVBad
  | CVInteger int
  | CVString string
  | CVElements "ConstantValue list"
  | CVNullHandle

datatype DiagCode =
    ConstEvalTaskNotConstant
  | ConstEvalDPINotConstant
  | ConstEvalMethodNotConstant
  | ConstEvalSubroutineNotConstant string
  | ConstEvalVoidNotConstant
  | ConstEvalFunctionArgDirection
  | ConstEvalFunctionInsideGenerate
  | ConstEvalDisableTarget
  | ConstEvalHierarchicalNameInCE string
  | ConstEvalExceededMaxCallDepth
  | DuplicateArgAssignment string
  | MixingOrderedAndNamedArgs
  | ArgCannotBeEmpty string
  | TooFewArguments nat nat
  | UnconnectedArg string
  | TooManyArguments nat nat
  | ArgDoesNotExist string string

datatype MinTypMax = Min | Typ | Max

record CompilationOptions =
  minTypMax :: MinTypMax
  allowHierarchicalConst :: bool
  maxRecursionDepth :: nat

record ValueSymbol =
  vaddr :: nat
  vname :: string
  defaultValue :: ConstantValue

record FormalArgumentSymbol =
  faddr :: nat
  name :: string
  argType :: CanonicalKind
  direction :: ArgumentDirection
  isConstant :: bool

record SubroutineSymbol =
  subName :: string
  subroutineKind :: SubroutineKind
  flags :: "MethodFlags set"
  returnType :: CanonicalKind
  arguments :: "FormalArgumentSymbol list"
  parentKind :: SymbolKind
  returnValVar :: "ValueSymbol option"

text \<open>
  Modelled from the spec: the evaluation context, which is declared outside the given
  sources. It holds a stack of frames, each with the active subroutine (absent for the
  bottom frame) and its locals, keyed by the pointer to the symbol (its address); the
  script-eval flag; and the
  options of the compilation. A diagnostic of the evaluator keeps the call stack it was
  raised under, which is what is reported with it.
\<close>

record Frame =
  temporaries :: "nat \<rightharpoonup> ConstantValue"
  subroutine :: "string option"

record Diagnostic =
  code :: DiagCode
  callStack :: "string option list"

record EvalContext =
  stack :: "Frame list"
  diags :: "Diagnostic list"
  scriptEval :: bool
  options :: CompilationOptions

definition isScriptEval :: "EvalContext \<Rightarrow> bool" where
  "isScriptEval ctx = scriptEval ctx"

definition addDiag :: "DiagCode \<Rightarrow> EvalContext \<Rightarrow> EvalContext" where
  "addDiag c ctx =
     ctx\<lparr>diags := diags ctx @ [\<lparr>code = c, callStack = map subroutine (stack ctx)\<rparr>]\<rparr>"

section \<open>Constant-ness of a called subroutine\<close>

text \<open>
  \<open>CallExpression::checkConstant\<close>: the checks run in the order of the source, the first
  one that fails raises its diagnostic and ends the check.
\<close>

definition checkConstant :: "EvalContext \<Rightarrow> SubroutineSymbol \<Rightarrow> bool \<times> EvalContext" where
  "checkConstant ctx sub =
     (if isScriptEval ctx then (True, ctx)
      else if subroutineKind sub = Task then (False, addDiag ConstEvalTaskNotConstant ctx)
      else if has (flags sub) {DPIImport} then (False, addDiag ConstEvalDPINotConstant ctx)
      else if has (flags sub) {Virtual, Pure, Constructor}
        then (False, addDiag ConstEvalMethodNotConstant ctx)
      else if has (flags sub) {NotConst}
        then (False, addDiag (ConstEvalSubroutineNotConstant (subName sub)) ctx)
      else if isVoid (returnType sub) then (False, addDiag ConstEvalVoidNotConstant ctx)
      else if list_ex (\<lambda>arg. direction arg \<noteq> In) (arguments sub)
        then (False, addDiag ConstEvalFunctionArgDirection ctx)
      else if parentKind sub = GenerateBlock
        then (False, addDiag ConstEvalFunctionInsideGenerate ctx)
      else (True, ctx))"

section \<open>Bound expressions\<close>

text \<open>
  The expression nodes the properties below are about. A call node carries its address:
  its mutable flag \<open>inRecursion\<close> is kept in a store under that address. The callee of a
  call is a user subroutine or a system subroutine (named); the iterator expression of a
  system call's info sits beside it in the node. The \<open>selected_\<close> pointer of a min:typ:max
  node points at one of its three operands and is kept as the name of that operand.
  \<open>OtherExpression\<close> stands for every other kind of node: its type, the outcome of its own
  constant-ness check, and its operands.
\<close>

datatype Subroutine = User SubroutineSymbol | System string

datatype Expression =
    InvalidExpression "Expression option"
  | HierarchicalValueExpression CanonicalKind string
  | CallExpression nat Subroutine CanonicalKind "Expression option" "Expression option"
      "Expression list"
  | MinTypMaxExpression CanonicalKind Expression Expression Expression MinTypMax
  | OtherExpression CanonicalKind bool "Expression list"

fun type_of :: "Expression \<Rightarrow> CanonicalKind" where
  "type_of (InvalidExpression child) = ErrorType"
| "type_of (HierarchicalValueExpression t s) = t"
| "type_of (CallExpression a sub t iter this args) = t"
| "type_of (MinTypMaxExpression t mn ty mx sel) = t"
| "type_of (OtherExpression t ok ops) = t"

fun bad :: "Expression \<Rightarrow> bool" where
  "bad (InvalidExpression child) = True"
| "bad e = isError (type_of e)"

definition badExpr :: "Expression option \<Rightarrow> Expression" where
  "badExpr expr = InvalidExpression expr"

fun selected :: "Expression \<Rightarrow> Expression" where
  "selected (MinTypMaxExpression t mn ty mx Min) = mn"
| "selected (MinTypMaxExpression t mn ty mx Typ) = ty"
| "selected (MinTypMaxExpression t mn ty mx Max) = mx"
| "selected e = e"

section \<open>The evaluator's frames\<close>

text \<open>
  Modelled from the spec: the methods of the evaluation context that the call machine
  uses, which are declared outside the given sources. Pushing a frame fails with a
  diagnostic at the recursion-depth limit; a local is created in the top frame and looked
  up there; a local created without a value holds the default value of its type (the
  caller passes it). The top of the stack is the head of the list.
\<close>

definition pushFrame :: "EvalContext \<Rightarrow> SubroutineSymbol \<Rightarrow> bool \<times> EvalContext" where
  "pushFrame ctx sub =
     (if length (stack ctx) \<ge> maxRecursionDepth (options ctx)
      then (False, addDiag ConstEvalExceededMaxCallDepth ctx)
      else (True, ctx\<lparr>stack :=
              \<lparr>temporaries = Map.empty, subroutine = Some (subName sub)\<rparr> # stack ctx\<rparr>))"

definition popFrame :: "EvalContext \<Rightarrow> EvalContext" where
  "popFrame ctx = ctx\<lparr>stack := tl (stack ctx)\<rparr>"

definition createLocal :: "nat \<Rightarrow> ConstantValue \<Rightarrow> EvalContext \<Rightarrow> EvalContext" where
  "createLocal symbol v ctx =
     (case stack ctx of
        [] \<Rightarrow> ctx
      | f # fs \<Rightarrow> ctx\<lparr>stack := f\<lparr>temporaries := (temporaries f)(symbol \<mapsto> v)\<rparr> # fs\<rparr>)"

definition findLocal :: "EvalContext \<Rightarrow> nat \<Rightarrow> ConstantValue option" where
  "findLocal ctx symbol =
     (case stack ctx of [] \<Rightarrow> None | f # fs \<Rightarrow> temporaries f symbol)"

section \<open>Evaluating a call\<close>

datatype EvalResult = Fail | Success | Return | Break | Continue | Disable

text \<open>
  What ends the program instead of returning: a failed \<open>ASSERT\<close>, an index beyond a
  vector's size, a null pointer dereferenced, \<open>THROW_UNREACHABLE\<close>.
\<close>

datatype Abort = AssertionFailed | OutOfRange | NullDereference | Unreachable

text \<open>The loop over \<open>arguments()\<close>: each is evaluated in the current frame, a bad value ends it.\<close>

fun evalArguments ::
  "(Expression \<Rightarrow> EvalContext \<Rightarrow> ConstantValue \<times> EvalContext) \<Rightarrow> Expression list \<Rightarrow>
   EvalContext \<Rightarrow> ConstantValue list option \<times> EvalContext" where
  "evalArguments eval [] ctx = (Some [], ctx)"
| "evalArguments eval (arg # rest) ctx =
     (case eval arg ctx of (v, ctx1) \<Rightarrow>
        if v = CVBad then (None, ctx1)
        else (case evalArguments eval rest ctx1 of
                (None, ctx2) \<Rightarrow> (None, ctx2)
              | (Some vs, ctx2) \<Rightarrow> (Some (v # vs), ctx2)))"

text \<open>The loop \<open>createLocal(formals[i], args[i])\<close>; \<open>args[i]\<close> must exist.\<close>

fun createLocals ::
  "FormalArgumentSymbol list \<Rightarrow> ConstantValue list \<Rightarrow> EvalContext \<Rightarrow> Abort + EvalContext" where
  "createLocals [] vs ctx = Inr ctx"
| "createLocals (f # fs) [] ctx = Inl OutOfRange"
| "createLocals (f # fs) (v # vs) ctx = createLocals fs vs (createLocal (faddr f) v ctx)"

text \<open>
  \<open>CallExpression::evalImpl\<close>. Its parameters are the parts of the evaluator it calls into:
  the handler of system calls, \<open>Expression::eval\<close> for the arguments, and the evaluation of
  the callee's body, which returns the statement result.
\<close>

definition CallExpression_evalImpl ::
  "(string \<Rightarrow> Expression list \<Rightarrow> EvalContext \<Rightarrow> ConstantValue \<times> EvalContext) \<Rightarrow>
   (Expression \<Rightarrow> EvalContext \<Rightarrow> ConstantValue \<times> EvalContext) \<Rightarrow>
   (SubroutineSymbol \<Rightarrow> EvalContext \<Rightarrow> EvalResult \<times> EvalContext) \<Rightarrow>
   Subroutine \<Rightarrow> Expression option \<Rightarrow> Expression list \<Rightarrow> EvalContext \<Rightarrow>
   Abort + (ConstantValue \<times> EvalContext)" where
  "CallExpression_evalImpl systemEval eval evalBody sub thisClass args ctx =
     (case sub of
        System sysName \<Rightarrow> Inr (systemEval sysName args ctx)
      | User symbol \<Rightarrow>
          (case checkConstant ctx symbol of
             (False, ctx1) \<Rightarrow> Inr (CVBad, ctx1)
           | (True, ctx1) \<Rightarrow>
               if thisClass \<noteq> None then Inr (CVBad, ctx1)
               else
                 (case evalArguments eval args ctx1 of
                    (None, ctx2) \<Rightarrow> Inr (CVBad, ctx2)
                  | (Some vs, ctx2) \<Rightarrow>
                      (case pushFrame ctx2 symbol of
                         (False, ctx3) \<Rightarrow> Inr (CVBad, ctx3)
                       | (True, ctx3) \<Rightarrow>
                           (case createLocals (arguments symbol) vs ctx3 of
                              Inl a \<Rightarrow> Inl a
                            | Inr ctx4 \<Rightarrow>
                                (case returnValVar symbol of
                                   None \<Rightarrow> Inl AssertionFailed
                                 | Some rv \<Rightarrow>
                                     (case evalBody symbol
                                             (createLocal (vaddr rv) (defaultValue rv) ctx4) of
                                        (er, ctx5) \<Rightarrow>
                                          let ctx6 = (if er = Disable
                                                      then addDiag ConstEvalDisableTarget ctx5
                                                      else ctx5)
                                          in (case findLocal ctx6 (vaddr rv) of
                                                None \<Rightarrow> Inl NullDereference
                                              | Some result \<Rightarrow>
                                                  let ctx7 = popFrame ctx6
                                                  in if er = Fail \<or> er = Disable
                                                     then Inr (CVBad, ctx7)
                                                     else if er = Success \<or> er = Return
                                                     then Inr (result, ctx7)
                                                     else Inl AssertionFailed))))))))"

section \<open>Hierarchical values\<close>

text \<open>
  \<open>HierarchicalValueExpression::evalImpl\<close> and \<open>verifyConstantImpl\<close>, for a node that names
  the symbol \<open>nm\<close>.
\<close>

definition HierarchicalValueExpression_evalImpl ::
  "string \<Rightarrow> EvalContext \<Rightarrow> ConstantValue \<times> EvalContext" where
  "HierarchicalValueExpression_evalImpl nm ctx = (CVBad, ctx)"

definition HierarchicalValueExpression_verifyConstantImpl ::
  "string \<Rightarrow> EvalContext \<Rightarrow> bool \<times> EvalContext" where
  "HierarchicalValueExpression_verifyConstantImpl nm ctx =
     (False, addDiag (ConstEvalHierarchicalNameInCE nm) ctx)"

section \<open>Binding the arguments of a call\<close>

text \<open>
  Modelled from the spec: the compilation as the binder uses it, declared outside the
  given sources. It collects the diagnostics in the order they are added and hands out the
  addresses of the nodes it allocates.
\<close>

record Compilation =
  diagnostics :: "DiagCode list"
  nextNode :: nat

definition BindContext_addDiag :: "DiagCode \<Rightarrow> Compilation \<Rightarrow> Compilation" where
  "BindContext_addDiag c cn = cn\<lparr>diagnostics := diagnostics cn @ [c]\<rparr>"

text \<open>
  An argument of the syntax tree, over the type \<open>'s\<close> of expression syntax: an ordered
  argument, a named one (the text of its name, and its expression if it has one), or an
  empty one.
\<close>

datatype 's ArgumentSyntax =
    OrderedArgument 's
  | NamedArgument string "'s option"
  | EmptyArgument

fun isNamed :: "'s ArgumentSyntax \<Rightarrow> bool" where
  "isNamed (NamedArgument n e) = True"
| "isNamed a = False"

text \<open>
  \<open>namedArgs\<close> maps a name to the named argument and its used mark. It is kept in the
  order of insertion; the only loop over it (for the arguments left unused) adds one
  diagnostic for each, so only the order of those depends on this choice.
\<close>

type_synonym 's NamedArgs = "(string \<times> 's option \<times> bool) list"

fun markUsed :: "string \<Rightarrow> 's NamedArgs \<Rightarrow> 's NamedArgs" where
  "markUsed n [] = []"
| "markUsed n ((k, e, u) # rest) =
     (if k = n then (k, e, True) # rest else (k, e, u) # markUsed n rest)"

text \<open>
  The first loop of \<open>CallExpression::fromArgs\<close>: the ordered arguments (an empty one is
  \<open>None\<close>) and the named ones are collected; an ordered or empty argument after a named one
  that was recorded ends the binding (\<open>None\<close>).
\<close>

fun collectArgs ::
  "'s ArgumentSyntax list \<Rightarrow> 's option list \<Rightarrow> 's NamedArgs \<Rightarrow> Compilation \<Rightarrow>
   ('s option list \<times> 's NamedArgs) option \<times> Compilation" where
  "collectArgs [] orderedArgs namedArgs cn = (Some (orderedArgs, namedArgs), cn)"
| "collectArgs (NamedArgument n e # rest) orderedArgs namedArgs cn =
     (if n \<noteq> []
      then (case map_of namedArgs n of
              None \<Rightarrow> collectArgs rest orderedArgs (namedArgs @ [(n, e, False)]) cn
            | Some prev \<Rightarrow>
                collectArgs rest orderedArgs namedArgs
                  (BindContext_addDiag (DuplicateArgAssignment n) cn))
      else collectArgs rest orderedArgs namedArgs cn)"
| "collectArgs (EmptyArgument # rest) orderedArgs namedArgs cn =
     (if namedArgs \<noteq> [] then (None, BindContext_addDiag MixingOrderedAndNamedArgs cn)
      else collectArgs rest (orderedArgs @ [None]) namedArgs cn)"
| "collectArgs (OrderedArgument e # rest) orderedArgs namedArgs cn =
     (if namedArgs \<noteq> [] then (None, BindContext_addDiag MixingOrderedAndNamedArgs cn)
      else collectArgs rest (orderedArgs @ [Some e]) namedArgs cn)"

text \<open>
  An argument given empty, in order or by name: the formal's default is used, and its
  absence is reported. An argument given with an expression is bound against the formal.
\<close>

definition bindOne ::
  "(FormalArgumentSymbol \<Rightarrow> Expression option) \<Rightarrow>
   (CanonicalKind \<Rightarrow> ArgumentDirection \<Rightarrow> 's \<Rightarrow> bool \<Rightarrow> Compilation \<Rightarrow> Expression \<times> Compilation) \<Rightarrow>
   FormalArgumentSymbol \<Rightarrow> 's option \<Rightarrow> Compilation \<Rightarrow> Expression option \<times> Compilation" where
  "bindOne getInitializer bindArgument formal arg cn =
     (case arg of
        None \<Rightarrow>
          (case getInitializer formal of
             None \<Rightarrow> (None, BindContext_addDiag (ArgCannotBeEmpty (name formal)) cn)
           | Some e \<Rightarrow> (Some e, cn))
      | Some syn \<Rightarrow>
          (case bindArgument (argType formal) (direction formal) syn (isConstant formal) cn of
             (e, cn1) \<Rightarrow> (Some e, cn1)))"

text \<open>The end of the loop body: \<open>bad\<close> and \<open>boundArgs\<close> after the formal's expression.\<close>

definition noteBound ::
  "Expression option \<Rightarrow> Expression list \<Rightarrow> bool \<Rightarrow> Expression list \<times> bool" where
  "noteBound expr boundArgs b =
     (case expr of
        None \<Rightarrow> (boundArgs, True)
      | Some e \<Rightarrow> (boundArgs @ [e], b \<or> bad e))"

text \<open>
  The loop over the formals. Its state is \<open>orderedIndex\<close>, \<open>namedArgs\<close>, \<open>boundArgs\<close>, \<open>bad\<close>
  and the compilation; \<open>nformals\<close> is \<open>symbol.getArguments().size()\<close>. The \<open>break\<close> of the
  source returns the state as it is.
\<close>

fun bindFormals ::
  "(FormalArgumentSymbol \<Rightarrow> Expression option) \<Rightarrow>
   (CanonicalKind \<Rightarrow> ArgumentDirection \<Rightarrow> 's \<Rightarrow> bool \<Rightarrow> Compilation \<Rightarrow> Expression \<times> Compilation) \<Rightarrow>
   nat \<Rightarrow> 's option list \<Rightarrow> FormalArgumentSymbol list \<Rightarrow>
   nat \<Rightarrow> 's NamedArgs \<Rightarrow> Expression list \<Rightarrow> bool \<Rightarrow> Compilation \<Rightarrow>
   nat \<times> 's NamedArgs \<times> Expression list \<times> bool \<times> Compilation" where
  "bindFormals getInitializer bindArgument nformals orderedArgs [] orderedIndex namedArgs
       boundArgs b cn = (orderedIndex, namedArgs, boundArgs, b, cn)"
| "bindFormals getInitializer bindArgument nformals orderedArgs (formal # rest) orderedIndex
       namedArgs boundArgs b cn =
     (if orderedIndex < length orderedArgs then
        (case bindOne getInitializer bindArgument formal (orderedArgs ! orderedIndex) cn of
           (expr, cn1) \<Rightarrow>
             (case map_of namedArgs (name formal) of
                Some dup \<Rightarrow>
                  (case noteBound expr boundArgs True of
                     (boundArgs1, b1) \<Rightarrow>
                       bindFormals getInitializer bindArgument nformals orderedArgs rest
                         (Suc orderedIndex) (markUsed (name formal) namedArgs) boundArgs1 b1
                         (BindContext_addDiag (DuplicateArgAssignment (name formal)) cn1))
              | None \<Rightarrow>
                  (case noteBound expr boundArgs b of
                     (boundArgs1, b1) \<Rightarrow>
                       bindFormals getInitializer bindArgument nformals orderedArgs rest
                         (Suc orderedIndex) namedArgs boundArgs1 b1 cn1)))
      else
        (case map_of namedArgs (name formal) of
           Some (arg, used) \<Rightarrow>
             (case bindOne getInitializer bindArgument formal arg cn of
                (expr, cn1) \<Rightarrow>
                  (case noteBound expr boundArgs b of
                     (boundArgs1, b1) \<Rightarrow>
                       bindFormals getInitializer bindArgument nformals orderedArgs rest
                         orderedIndex (markUsed (name formal) namedArgs) boundArgs1 b1 cn1))
         | None \<Rightarrow>
             (case getInitializer formal of
                None \<Rightarrow>
                  if namedArgs = []
                  then (orderedIndex, namedArgs, boundArgs, True,
                        BindContext_addDiag (TooFewArguments nformals (length orderedArgs)) cn)
                  else bindFormals getInitializer bindArgument nformals orderedArgs rest
                         orderedIndex namedArgs boundArgs True
                         (BindContext_addDiag (UnconnectedArg (name formal)) cn)
              | Some e \<Rightarrow>
                  (case noteBound (Some e) boundArgs b of
                     (boundArgs1, b1) \<Rightarrow>
                       bindFormals getInitializer bindArgument nformals orderedArgs rest
                         orderedIndex namedArgs boundArgs1 b1 cn))))"

text \<open>The last loop: a named argument that no formal used names no argument of the callee.\<close>

fun reportUnused :: "string \<Rightarrow> 's NamedArgs \<Rightarrow> bool \<Rightarrow> Compilation \<Rightarrow> bool \<times> Compilation" where
  "reportUnused callee [] b cn = (b, cn)"
| "reportUnused callee ((n, e, used) # rest) b cn =
     (if \<not> used
      then reportUnused callee rest True (BindContext_addDiag (ArgDoesNotExist n callee) cn)
      else reportUnused callee rest b cn)"

text \<open>
  \<open>CallExpression::fromArgs\<close> for a user subroutine. \<open>getInitializer\<close> gives the bound
  default of a formal and \<open>bindArgument\<close> is \<open>Expression::bindArgument\<close>; both are declared
  outside the given sources. \<open>argSyntax\<close> is \<open>None\<close> for a call without an argument list.
\<close>

definition CallExpression_fromArgs ::
  "(FormalArgumentSymbol \<Rightarrow> Expression option) \<Rightarrow>
   (CanonicalKind \<Rightarrow> ArgumentDirection \<Rightarrow> 's \<Rightarrow> bool \<Rightarrow> Compilation \<Rightarrow> Expression \<times> Compilation) \<Rightarrow>
   SubroutineSymbol \<Rightarrow> Expression option \<Rightarrow> 's ArgumentSyntax list option \<Rightarrow> Compilation \<Rightarrow>
   Expression \<times> Compilation" where
  "CallExpression_fromArgs getInitializer bindArgument symbol thisClass argSyntax cn =
     (case collectArgs (case argSyntax of None \<Rightarrow> [] | Some ps \<Rightarrow> ps) [] [] cn of
        (None, cn1) \<Rightarrow> (badExpr None, cn1)
      | (Some (orderedArgs, namedArgs), cn1) \<Rightarrow>
          (case bindFormals getInitializer bindArgument (length (arguments symbol)) orderedArgs
                  (arguments symbol) 0 namedArgs [] False cn1 of
             (orderedIndex, namedArgs1, boundArgs, b, cn2) \<Rightarrow>
               (case (if orderedIndex < length orderedArgs
                      then (True, BindContext_addDiag
                              (TooManyArguments (length (arguments symbol)) (length orderedArgs))
                              cn2)
                      else (b, cn2)) of
                  (b1, cn3) \<Rightarrow>
                    (case reportUnused (subName symbol) namedArgs1 b1 cn3 of
                       (b2, cn4) \<Rightarrow>
                         let result = CallExpression (nextNode cn4) (User symbol)
                                        (returnType symbol) None thisClass boundArgs;
                             cn5 = cn4\<lparr>nextNode := Suc (nextNode cn4)\<rparr>
                         in if b2 then (badExpr (Some result), cn5) else (result, cn5)))))"

section \<open>Min:typ:max expressions\<close>

datatype BindFlags =
    AllowDataType | UnevaluatedBranch | StaticInitializer | ProceduralStatement | Constant

text \<open>
  \<open>MinTypMaxExpression::fromSyntax\<close>, over the three operands of the syntax node.
  \<open>create\<close> is \<open>Expression::create\<close> in the given bind context, with the extra flags and the
  assignment target; the empty set of flags is \<open>BindFlags::None\<close>.
\<close>

definition MinTypMaxExpression_fromSyntax ::
  "('s \<Rightarrow> BindFlags set \<Rightarrow> CanonicalKind option \<Rightarrow> Compilation \<Rightarrow> Expression \<times> Compilation) \<Rightarrow>
   CompilationOptions \<Rightarrow> 's \<Rightarrow> 's \<Rightarrow> 's \<Rightarrow> CanonicalKind option \<Rightarrow> Compilation \<Rightarrow>
   Expression \<times> Compilation" where
  "MinTypMaxExpression_fromSyntax create opts synMin synTyp synMax assignmentTarget cn =
     (let minFlags = (case minTypMax opts of Min \<Rightarrow> {} | Typ \<Rightarrow> {UnevaluatedBranch}
                      | Max \<Rightarrow> {UnevaluatedBranch});
          typFlags = (case minTypMax opts of Min \<Rightarrow> {UnevaluatedBranch} | Typ \<Rightarrow> {}
                      | Max \<Rightarrow> {UnevaluatedBranch});
          maxFlags = (case minTypMax opts of Min \<Rightarrow> {UnevaluatedBranch}
                      | Typ \<Rightarrow> {UnevaluatedBranch} | Max \<Rightarrow> {})
      in case create synMin minFlags assignmentTarget cn of
           (mn, cn1) \<Rightarrow>
             (case create synTyp typFlags assignmentTarget cn1 of
                (ty, cn2) \<Rightarrow>
                  (case create synMax maxFlags assignmentTarget cn2 of
                     (mx, cn3) \<Rightarrow>
                       let sel = (case minTypMax opts of Min \<Rightarrow> mn | Typ \<Rightarrow> ty | Max \<Rightarrow> mx);
                           result = MinTypMaxExpression (type_of sel) mn ty mx (minTypMax opts)
                       in if bad mn \<or> bad ty \<or> bad mx
                          then (badExpr (Some result), cn3)
                          else (result, cn3))))"

text \<open>
  \<open>MinTypMaxExpression::evalImpl\<close> and \<open>verifyConstantImpl\<close>, over \<open>Expression::eval\<close> and
  \<open>Expression::verifyConstant\<close>.
\<close>

definition MinTypMaxExpression_evalImpl ::
  "(Expression \<Rightarrow> EvalContext \<Rightarrow> ConstantValue \<times> EvalContext) \<Rightarrow> Expression \<Rightarrow>
   EvalContext \<Rightarrow> ConstantValue \<times> EvalContext" where
  "MinTypMaxExpression_evalImpl eval this ctx = eval (selected this) ctx"

section \<open>Verifying constant-ness\<close>










section \<open>Canonical types\<close>

text \<open>
  \<open>Type.h\<close>. A type is an object in a store, under its address; its \<open>canonical\<close> field is a
  pointer to a type, null (\<open>None\<close>) until it is resolved. \<open>targetType\<close> is the type an alias
  names.
\<close>

record Type =
  kind :: SymbolKind
  canonical :: "nat option"
  targetType :: "nat option"

type_synonym TypeStore = "nat \<rightharpoonup> Type"

text \<open>The constructor \<open>Type(kind, name, loc)\<close>, building the object at the address \<open>this\<close>.\<close>

definition Type_ctor :: "nat \<Rightarrow> SymbolKind \<Rightarrow> TypeStore \<Rightarrow> TypeStore" where
  "Type_ctor this k store = store(this \<mapsto> \<lparr>kind = k, canonical = Some this, targetType = None\<rparr>)"

text \<open>
  Modelled from the spec: the alias type and \<open>resolveCanonical\<close>, which \<open>Type.h\<close> declares
  and does not define. An alias is built with its canonical pointer unresolved, and
  resolving it forwards to the canonical type of its target. The first argument bounds
  the length of the chain of aliases that is followed; \<open>None\<close> is returned when the bound
  is reached or a pointer leads nowhere.
\<close>

definition TypeAlias_ctor :: "nat \<Rightarrow> nat \<Rightarrow> TypeStore \<Rightarrow> TypeStore" where
  "TypeAlias_ctor this target store =
     store(this \<mapsto> \<lparr>kind = TypeAlias, canonical = None, targetType = Some target\<rparr>)"

text \<open>\<open>Type::getCanonicalType\<close>: the cached pointer, resolved first if it is null.\<close>

fun getCanonicalType :: "nat \<Rightarrow> TypeStore \<Rightarrow> nat \<Rightarrow> (nat \<times> TypeStore) option"
and resolveCanonical :: "nat \<Rightarrow> TypeStore \<Rightarrow> nat \<Rightarrow> TypeStore option" where
  "getCanonicalType n store this =
     (case store this of
        None \<Rightarrow> None
      | Some t \<Rightarrow>
          (case canonical t of
             Some c \<Rightarrow> Some (c, store)
           | None \<Rightarrow>
               (case resolveCanonical n store this of
                  None \<Rightarrow> None
                | Some store1 \<Rightarrow>
                    (case store1 this of
                       None \<Rightarrow> None
                     | Some t1 \<Rightarrow>
                         (case canonical t1 of
                            None \<Rightarrow> None
                          | Some c \<Rightarrow> Some (c, store1))))))"
| "resolveCanonical 0 store this = None"
| "resolveCanonical (Suc n) store this =
     (case store this of
        None \<Rightarrow> None
      | Some t \<Rightarrow>
          (case targetType t of
             None \<Rightarrow> None
           | Some target \<Rightarrow>
               (case getCanonicalType n store target of
                  None \<Rightarrow> None
                | Some (c, store1) \<Rightarrow>
                    (case store1 this of
                       None \<Rightarrow> None
                     | Some t1 \<Rightarrow> Some (store1(this \<mapsto> t1\<lparr>canonical := Some c\<rparr>))))))"

text \<open>
  The stores the constructors build: a type that is no alias points to itself, and a
  resolved pointer leads to a type that is no alias.
\<close>

definition wfStore :: "TypeStore \<Rightarrow> bool" where
  "wfStore store =
     (\<forall>a t. store a = Some t \<longrightarrow>
        (kind t \<noteq> TypeAlias \<longrightarrow> canonical t = Some a)
        \<and> (\<forall>c. canonical t = Some c \<longrightarrow> (\<exists>tc. store c = Some tc \<and> kind tc \<noteq> TypeAlias)))"

text \<open>
  A type whose canonical pointer is resolved, or is reached from it along at most \<open>n\<close>
  alias targets.
\<close>

fun resolvable :: "nat \<Rightarrow> TypeStore \<Rightarrow> nat \<Rightarrow> bool" where
  "resolvable 0 store a =
     (case store a of None \<Rightarrow> False | Some t \<Rightarrow> canonical t \<noteq> None)"
| "resolvable (Suc n) store a =
     (case store a of
        None \<Rightarrow> False
      | Some t \<Rightarrow>
          canonical t \<noteq> None
          \<or> (case targetType t of None \<Rightarrow> False | Some target \<Rightarrow> resolvable n store target))"

text \<open>Two stores whose objects have the same kinds at the same addresses.\<close>

definition sameKinds :: "TypeStore \<Rightarrow> TypeStore \<Rightarrow> bool" where
  "sameKinds s1 s2 = (\<forall>x. map_option kind (s1 x) = map_option kind (s2 x))"

section \<open>Explicit imports\<close>

text \<open>
  \<open>MemberSymbols.cpp\<close>. A package with its members by name, and the design root with its
  packages and the errors reported to it.
\<close>

record Symbol =
  symKind :: SymbolKind
  symName :: string

record PackageSymbol =
  pkgName :: string
  members :: "(string \<times> Symbol) list"

record DesignRootSymbol =
  packages :: "PackageSymbol list"
  errors :: "DiagCode list"

definition findPackage :: "DesignRootSymbol \<Rightarrow> string \<Rightarrow> PackageSymbol option" where
  "findPackage root nm = find (\<lambda>p. pkgName p = nm) (packages root)"

definition lookupDirect :: "PackageSymbol \<Rightarrow> string \<Rightarrow> Symbol option" where
  "lookupDirect pkg nm = map_of (members pkg) nm"

record ExplicitImportSymbol =
  packageName :: string
  importName :: string
  initialized :: bool
  package_field :: "PackageSymbol option"
  import :: "Symbol option"

text \<open>
  \<open>ExplicitImportSymbol::importedSymbol\<close> and \<open>package\<close>. The symbol's mutable fields are
  returned updated, and the root as the call leaves it.
\<close>

definition importedSymbol ::
  "DesignRootSymbol \<Rightarrow> ExplicitImportSymbol \<Rightarrow>
   Symbol option \<times> ExplicitImportSymbol \<times> DesignRootSymbol" where
  "importedSymbol root this =
     (if \<not> initialized this then
        (let this1 = this\<lparr>initialized := True,
                           package_field := findPackage root (packageName this)\<rparr>;
             this2 = (case package_field this1 of
                        None \<Rightarrow> this1
                      | Some p \<Rightarrow> this1\<lparr>import := lookupDirect p (importName this1)\<rparr>)
         in (import this2, this2, root))
      else (import this, this, root))"

definition package ::
  "DesignRootSymbol \<Rightarrow> ExplicitImportSymbol \<Rightarrow>
   PackageSymbol option \<times> ExplicitImportSymbol \<times> DesignRootSymbol" where
  "package root this =
     (case importedSymbol root this of (s, this1, root1) \<Rightarrow> (package_field this1, this1, root1))"

section \<open>The formal arguments of a subroutine\<close>

text \<open>
  \<open>SubroutineSymbol::fromSyntax\<close> in \<open>MemberSymbols.cpp\<close>, which is an earlier revision than
  the binder above: its argument symbol keeps the syntax of its type and of its
  initializer, over the types \<open>'t\<close> and \<open>'e\<close> of those syntax nodes. The direction has the
  members of \<open>ArgumentDirection\<close>.
\<close>

type_synonym FormalArgumentDirection = ArgumentDirection

datatype TokenKind =
    InputKeyword | OutputKeyword | InOutKeyword | RefKeyword | LocalParamKeyword | Unknown

record ('t, 'e) FunctionPortSyntax =
  portDirection :: TokenKind
  constKeyword :: bool
  dataType :: "'t option"
  declaratorName :: string
  declaratorInitializer :: "'e option"

text \<open>The type of an argument: the syntax it was given, or the compilation's logic type.\<close>

datatype 't LazyType = FromSyntax 't | LogicType

record ('t, 'e) PortArgument =
  argName :: string
  argDirection :: FormalArgumentDirection
  argIsConst :: bool
  argLazyType :: "'t LazyType"
  argInitializer :: "'e option"

text \<open>
  The \<open>switch\<close> over the port's direction token: the direction, and whether it was
  specified. \<open>lastDirection\<close> is the direction of the port before.
\<close>

definition portDirectionOf ::
  "('t, 'e) FunctionPortSyntax \<Rightarrow> FormalArgumentDirection \<Rightarrow>
   Abort + (FormalArgumentDirection \<times> bool)" where
  "portDirectionOf portSyntax lastDirection =
     (case portDirection portSyntax of
        InputKeyword \<Rightarrow> Inr (In, True)
      | OutputKeyword \<Rightarrow> Inr (Out, True)
      | InOutKeyword \<Rightarrow> Inr (InOut, True)
      | RefKeyword \<Rightarrow> Inr (if constKeyword portSyntax then ConstRef else Ref, True)
      | Unknown \<Rightarrow> Inr (lastDirection, False)
      | LocalParamKeyword \<Rightarrow> Inl Unreachable)"

text \<open>The loop over the ports, with \<open>lastType\<close> and \<open>lastDirection\<close> as it goes.\<close>

fun portArguments ::
  "('t, 'e) FunctionPortSyntax list \<Rightarrow> 't option \<Rightarrow> FormalArgumentDirection \<Rightarrow>
   Abort + ('t, 'e) PortArgument list" where
  "portArguments [] lastType lastDirection = Inr []"
| "portArguments (portSyntax # rest) lastType lastDirection =
     (case portDirectionOf portSyntax lastDirection of
        Inl a \<Rightarrow> Inl a
      | Inr (dir, directionSpecified) \<Rightarrow>
          (case (case dataType portSyntax of
                   Some dt \<Rightarrow> (FromSyntax dt, Some dt)
                 | None \<Rightarrow>
                     if directionSpecified \<or> lastType = None then (LogicType, None)
                     else (FromSyntax (the lastType), lastType)) of
             (ty, lastType1) \<Rightarrow>
               (case portArguments rest lastType1 dir of
                  Inl a \<Rightarrow> Inl a
                | Inr args \<Rightarrow>
                    Inr (\<lparr>argName = declaratorName portSyntax, argDirection = dir,
                          argIsConst = (dir = ConstRef), argLazyType = ty,
                          argInitializer = declaratorInitializer portSyntax\<rparr> # args))))"

text \<open>The type that \<open>lastType\<close> stands for: the logic type when it is null.\<close>

definition typeOfLast :: "'t option \<Rightarrow> 't LazyType" where
  "typeOfLast lastType = (case lastType of None \<Rightarrow> LogicType | Some t \<Rightarrow> FromSyntax t)"

text \<open>The arguments of the subroutine built from a prototype, with or without a port list.\<close>

definition fromSyntax_arguments ::
  "('t, 'e) FunctionPortSyntax list option \<Rightarrow> Abort + ('t, 'e) PortArgument list" where
  "fromSyntax_arguments portList =
     (case portList of
        None \<Rightarrow> Inr []
      | Some ports \<Rightarrow> portArguments ports None In)"

section \<open>Concrete inputs\<close>

text \<open>Inputs at which the properties below are evaluated.\<close>

definition exContext :: EvalContext where
  "exContext = \<lparr>stack = [\<lparr>temporaries = Map.empty, subroutine = None\<rparr>], diags = [],
     scriptEval = False,
     options = \<lparr>minTypMax = Typ, allowHierarchicalConst = True, maxRecursionDepth = 8\<rparr>\<rparr>"

definition exNotConst :: SubroutineSymbol where
  "exNotConst = \<lparr>subName = ''f'', subroutineKind = Function, flags = {NotConst},
     returnType = PredefinedIntegerType, arguments = [], parentKind = CompilationUnit,
     returnValVar = Some \<lparr>vaddr = 100, vname = ''f'', defaultValue = CVInteger 0\<rparr>\<rparr>"

definition exTask :: SubroutineSymbol where
  "exTask = \<lparr>subName = ''t'', subroutineKind = Task, flags = {},
     returnType = VoidType, arguments = [], parentKind = Module,
     returnValVar = None\<rparr>"

definition exFunction :: SubroutineSymbol where
  "exFunction = \<lparr>subName = ''g'', subroutineKind = Function, flags = {},
     returnType = PredefinedIntegerType, arguments = [], parentKind = CompilationUnit,
     returnValVar = Some \<lparr>vaddr = 100, vname = ''g'', defaultValue = CVInteger 0\<rparr>\<rparr>"

definition exTwoArgs :: SubroutineSymbol where
  "exTwoArgs = \<lparr>subName = ''f'', subroutineKind = Function, flags = {},
     returnType = PredefinedIntegerType,
     arguments = [\<lparr>faddr = 101, name = ''a'', argType = PredefinedIntegerType, direction = In,
                    isConstant = False\<rparr>,
                  \<lparr>faddr = 102, name = ''b'', argType = PredefinedIntegerType, direction = In,
                    isConstant = False\<rparr>],
     parentKind = CompilationUnit,
     returnValVar = Some \<lparr>vaddr = 100, vname = ''f'', defaultValue = CVInteger 0\<rparr>\<rparr>"

definition exOneArg :: SubroutineSymbol where
  "exOneArg = \<lparr>subName = ''h'', subroutineKind = Function, flags = {},
     returnType = PredefinedIntegerType,
     arguments = [\<lparr>faddr = 101, name = ''a'', argType = PredefinedIntegerType, direction = In,
                    isConstant = False\<rparr>],
     parentKind = CompilationUnit,
     returnValVar = Some \<lparr>vaddr = 100, vname = ''h'', defaultValue = CVInteger 0\<rparr>\<rparr>"

text \<open>A binder of arguments that accepts every expression, and no default values.\<close>

definition exBind ::
  "CanonicalKind \<Rightarrow> ArgumentDirection \<Rightarrow> nat \<Rightarrow> bool \<Rightarrow> Compilation \<Rightarrow> Expression \<times> Compilation" where
  "exBind t d syn c cn = (OtherExpression t True [], cn)"

definition exNoDefault :: "FormalArgumentSymbol \<Rightarrow> Expression option" where
  "exNoDefault formal = None"

definition exCompilation :: Compilation where
  "exCompilation = \<lparr>diagnostics = [], nextNode = 0\<rparr>"

text \<open>An integer type at address 1, an alias of it at 2 and an alias of that alias at 3.\<close>

definition exStore :: TypeStore where
  "exStore = TypeAlias_ctor 3 2 (TypeAlias_ctor 2 1 (Type_ctor 1 PredefinedIntegerType Map.empty))"

definition exResolved :: TypeStore where
  "exResolved = exStore(2 \<mapsto> \<lparr>kind = TypeAlias, canonical = Some 1, targetType = Some 1\<rparr>,
                        3 \<mapsto> \<lparr>kind = TypeAlias, canonical = Some 1, targetType = Some 2\<rparr>)"

text \<open>The ports \<open>(input int a, b, output c)\<close>.\<close>

definition exPorts :: "(string, nat) FunctionPortSyntax list" where
  "exPorts =
     [\<lparr>portDirection = InputKeyword, constKeyword = False, dataType = Some ''int'',
        declaratorName = ''a'', declaratorInitializer = None\<rparr>,
      \<lparr>portDirection = Unknown, constKeyword = False, dataType = None,
        declaratorName = ''b'', declaratorInitializer = None\<rparr>,
      \<lparr>portDirection = OutputKeyword, constKeyword = False, dataType = None,
        declaratorName = ''c'', declaratorInitializer = None\<rparr>]"

definition exArgs :: "(string, nat) PortArgument list" where
  "exArgs =
     [\<lparr>argName = ''a'', argDirection = In, argIsConst = False,
        argLazyType = FromSyntax ''int'', argInitializer = None\<rparr>,
      \<lparr>argName = ''b'', argDirection = In, argIsConst = False,
        argLazyType = FromSyntax ''int'', argInitializer = None\<rparr>,
      \<lparr>argName = ''c'', argDirection = Out, argIsConst = False,
        argLazyType = LogicType, argInitializer = None\<rparr>]"

text \<open>A design with the package \<open>p\<close>, and an import of \<open>q::x\<close>.\<close>

definition exRoot :: DesignRootSymbol where
  "exRoot = \<lparr>packages = [\<lparr>pkgName = ''p'',
                             members = [(''x'', \<lparr>symKind = Parameter, symName = ''x''\<rparr>)]\<rparr>],
             errors = []\<rparr>"

definition exImport :: ExplicitImportSymbol where
  "exImport = \<lparr>packageName = ''q'', importName = ''x'', initialized = False,
               package_field = None, import = None\<rparr>"





text \<open>
  The function \<open>h\<close> whose only formal is named \<open>h\<close> too, with a body that returns the
  formal; and a function whose return-value variable has the bad value as its default,
  with a body that ends in \<open>Success\<close> without assigning it.
\<close>

definition exShadow :: SubroutineSymbol where
  "exShadow = \<lparr>subName = ''h'', subroutineKind = Function, flags = {},
     returnType = PredefinedIntegerType,
     arguments = [\<lparr>faddr = 101, name = ''h'', argType = PredefinedIntegerType, direction = In,
                    isConstant = False\<rparr>],
     parentKind = CompilationUnit,
     returnValVar = Some \<lparr>vaddr = 100, vname = ''h'', defaultValue = CVInteger 0\<rparr>\<rparr>"

definition exReturnFormal :: "SubroutineSymbol \<Rightarrow> EvalContext \<Rightarrow> EvalResult \<times> EvalContext" where
  "exReturnFormal symbol ctx =
     (Return, createLocal 100 (case findLocal ctx 101 of None \<Rightarrow> CVBad | Some v \<Rightarrow> v) ctx)"

definition exBadReturn :: SubroutineSymbol where
  "exBadReturn = \<lparr>subName = ''e'', subroutineKind = Function, flags = {},
     returnType = ErrorType, arguments = [], parentKind = CompilationUnit,
     returnValVar = Some \<lparr>vaddr = 100, vname = ''e'', defaultValue = CVBad\<rparr>\<rparr>"





section \<open>Properties\<close>

lemma has_single: "has fl {x} = (x \<in> fl)"
  by (auto simp: has_def)

lemma has_method:
  "has fl {Virtual, Pure, Constructor} = (Virtual \<in> fl \<or> Pure \<in> fl \<or> Constructor \<in> fl)"
  by (auto simp: has_def)

subsection \<open>C1: which callees are not constant\<close>

text \<open>
  C1 as stated lists six reasons for the check to fail. The function \<open>f\<close> below is a
  non-void function that is no task, no DPI import and no virtual, pure or constructor
  method, takes no argument and sits in a compilation unit, and the check still fails on
  it: it is flagged \<open>NotConst\<close>.
\<close>

theorem checkConstant_NotConst_counterexample:
  "\<not> isScriptEval exContext \<and> subroutineKind exNotConst \<noteq> Task
   \<and> DPIImport \<notin> flags exNotConst \<and> Virtual \<notin> flags exNotConst
   \<and> Pure \<notin> flags exNotConst \<and> Constructor \<notin> flags exNotConst
   \<and> \<not> isVoid (returnType exNotConst)
   \<and> \<not> (\<exists>arg \<in> set (arguments exNotConst). direction arg \<noteq> In)
   \<and> parentKind exNotConst \<noteq> GenerateBlock
   \<and> checkConstant exContext exNotConst =
        (False, addDiag (ConstEvalSubroutineNotConstant ''f'') exContext)"
  by (simp add: exContext_def exNotConst_def checkConstant_def isScriptEval_def isVoid_def
      has_single has_method)

text \<open>
  C1 (amended): with script evaluation off, the constant-ness check of a user-defined
  callee fails exactly when the callee is a task, a DPI import, a virtual, pure or
  constructor method, is flagged \<open>NotConst\<close>, has a void return type, has a formal
  argument whose direction is not \<open>In\<close>, or is declared in a generate block. When it
  fails, one diagnostic is added and evaluating the call returns the bad value; when it
  succeeds, the context is left as it was.
\<close>

theorem checkConstant_exact:
  assumes "\<not> isScriptEval ctx"
  shows "(fst (checkConstant ctx sub) = False) =
           (subroutineKind sub = Task \<or> DPIImport \<in> flags sub \<or> Virtual \<in> flags sub
            \<or> Pure \<in> flags sub \<or> Constructor \<in> flags sub \<or> NotConst \<in> flags sub
            \<or> isVoid (returnType sub)
            \<or> (\<exists>arg \<in> set (arguments sub). direction arg \<noteq> In)
            \<or> parentKind sub = GenerateBlock)
         \<and> (if fst (checkConstant ctx sub) then snd (checkConstant ctx sub) = ctx
              else (\<exists>c. snd (checkConstant ctx sub) = addDiag c ctx)
                \<and> CallExpression_evalImpl systemEval eval evalBody (User sub) thisClass args ctx
                    = Inr (CVBad, snd (checkConstant ctx sub)))"
  using assms
  by (auto simp: checkConstant_def CallExpression_evalImpl_def list_ex_iff has_single
      has_method)

theorem checkConstant_exact_witness:
  "\<not> isScriptEval exContext
   \<and> fst (checkConstant exContext exTask) = False
   \<and> CallExpression_evalImpl (\<lambda>n a c. (CVBad, c)) (\<lambda>e c. (CVInteger 1, c))
        (\<lambda>s c. (Success, c)) (User exTask) None [] exContext
       = Inr (CVBad, addDiag ConstEvalTaskNotConstant exContext)"
  using checkConstant_exact [of exContext exTask "\<lambda>n a c. (CVBad, c)"
      "\<lambda>e c. (CVInteger 1, c)" "\<lambda>s c. (Success, c)" None "[]"]
  by (simp add: exContext_def exTask_def checkConstant_def isScriptEval_def has_single
      has_method)

subsection \<open>C2: the result of a constant function call\<close>

text \<open>
  C2 as stated has the call return the bad value exactly when the body's result is \<open>Fail\<close>
  or \<open>Disable\<close>. The body of the function \<open>e\<close> below ends in \<open>Success\<close> and its
  return-value local still holds the bad value it was created with, so the call returns
  the bad value.
\<close>

theorem call_result_counterexample:
  "Success \<noteq> Fail \<and> Success \<noteq> Disable
   \<and> CallExpression_evalImpl (\<lambda>n a c. (CVBad, c)) (\<lambda>e c. (CVInteger 1, c))
        (\<lambda>s c. (Success, c)) (User exBadReturn) None [] exContext
       = Inr (CVBad, exContext)"
  by (simp add: CallExpression_evalImpl_def exBadReturn_def exContext_def checkConstant_def
      isScriptEval_def isVoid_def has_def pushFrame_def createLocal_def findLocal_def
      popFrame_def)

text \<open>
  C2 (amended): once the callee's frame is pushed and its locals are created, the body is
  evaluated and gives a statement result. If it is \<open>Disable\<close>, the diagnostic is added
  while the callee's frame is still on the stack (it records the stack the body left, and
  the frame is popped afterwards). The call returns the bad value for \<open>Fail\<close> and
  \<open>Disable\<close> and the contents of the return-value local for \<open>Success\<close> and \<open>Return\<close>: it
  returns the bad value exactly when the result is \<open>Fail\<close> or \<open>Disable\<close>, or is \<open>Success\<close>
  or \<open>Return\<close> with a return-value local that holds the bad value.
\<close>

theorem call_result_by_status:
  assumes "checkConstant ctx symbol = (True, ctx1)"
    and "evalArguments eval args ctx1 = (Some vs, ctx2)"
    and "pushFrame ctx2 symbol = (True, ctx3)"
    and "createLocals (arguments symbol) vs ctx3 = Inr ctx4"
    and "returnValVar symbol = Some rv"
    and "evalBody symbol (createLocal (vaddr rv) (defaultValue rv) ctx4) = (er, ctx5)"
    and "findLocal ctx5 (vaddr rv) = Some result"
  shows "CallExpression_evalImpl systemEval eval evalBody (User symbol) None args ctx =
           (if er = Fail then Inr (CVBad, popFrame ctx5)
            else if er = Disable
              then Inr (CVBad, popFrame (addDiag ConstEvalDisableTarget ctx5))
            else if er = Success \<or> er = Return then Inr (result, popFrame ctx5)
            else Inl AssertionFailed)
         \<and> diags (popFrame (addDiag ConstEvalDisableTarget ctx5)) =
             diags ctx5 @ [\<lparr>code = ConstEvalDisableTarget,
                              callStack = map subroutine (stack ctx5)\<rparr>]
         \<and> stack (popFrame (addDiag ConstEvalDisableTarget ctx5)) = tl (stack ctx5)
         \<and> ((\<exists>c. CallExpression_evalImpl systemEval eval evalBody (User symbol) None args ctx
                    = Inr (CVBad, c))
              = (er = Fail \<or> er = Disable
                 \<or> ((er = Success \<or> er = Return) \<and> result = CVBad)))"
proof -
  have loc: "findLocal (addDiag ConstEvalDisableTarget ctx5) (vaddr rv) = Some result"
    using assms(7) by (simp add: findLocal_def addDiag_def)
  have main: "CallExpression_evalImpl systemEval eval evalBody (User symbol) None args ctx =
           (if er = Fail then Inr (CVBad, popFrame ctx5)
            else if er = Disable
              then Inr (CVBad, popFrame (addDiag ConstEvalDisableTarget ctx5))
            else if er = Success \<or> er = Return then Inr (result, popFrame ctx5)
            else Inl AssertionFailed)"
    using assms loc by (simp add: CallExpression_evalImpl_def Let_def)
  have d: "diags (popFrame (addDiag ConstEvalDisableTarget ctx5)) =
             diags ctx5 @ [\<lparr>code = ConstEvalDisableTarget,
                              callStack = map subroutine (stack ctx5)\<rparr>]"
    by (simp add: popFrame_def addDiag_def)
  have s: "stack (popFrame (addDiag ConstEvalDisableTarget ctx5)) = tl (stack ctx5)"
    by (simp add: popFrame_def addDiag_def)
  have e: "(\<exists>c. CallExpression_evalImpl systemEval eval evalBody (User symbol) None args ctx
                    = Inr (CVBad, c))
              = (er = Fail \<or> er = Disable
                 \<or> ((er = Success \<or> er = Return) \<and> result = CVBad))"
    unfolding main by (cases er) auto
  from main d s e show ?thesis by blast
qed

text \<open>
  The function \<open>g\<close> without arguments, with a body that ends in \<open>Disable\<close>: the call is
  bad, and the diagnostic was raised under the frame of \<open>g\<close>, which is gone afterwards.
  The function \<open>h\<close> with the formal \<open>h\<close>, called with 6, with a body that returns its
  formal: the formal and the return-value variable are two locals, and the call returns 6.
\<close>

theorem call_result_by_status_witness:
  "CallExpression_evalImpl (\<lambda>n a c. (CVBad, c)) (\<lambda>e c. (CVInteger 1, c))
        (\<lambda>s c. (Disable, c)) (User exFunction) None [] exContext
     = Inr (CVBad, exContext\<lparr>diags :=
            [\<lparr>code = ConstEvalDisableTarget, callStack = [Some ''g'', None]\<rparr>]\<rparr>)
   \<and> CallExpression_evalImpl (\<lambda>n a c. (CVBad, c)) (\<lambda>e c. (CVInteger 6, c))
        exReturnFormal (User exShadow) None [OtherExpression PredefinedIntegerType True []]
        exContext
     = Inr (CVInteger 6, exContext)"
proof -
  have one: "CallExpression_evalImpl (\<lambda>n a c. (CVBad, c)) (\<lambda>e c. (CVInteger 1, c))
        (\<lambda>s c. (Disable, c)) (User exFunction) None [] exContext
     = Inr (CVBad, exContext\<lparr>diags :=
            [\<lparr>code = ConstEvalDisableTarget, callStack = [Some ''g'', None]\<rparr>]\<rparr>)"
    using call_result_by_status [where ctx = exContext and symbol = exFunction
        and ?ctx1.0 = exContext and eval = "\<lambda>e c. (CVInteger 1, c)" and args = "[]"
        and vs = "[]" and ?ctx2.0 = exContext
        and ?ctx3.0 = "snd (pushFrame exContext exFunction)"
        and ?ctx4.0 = "snd (pushFrame exContext exFunction)"
        and rv = "\<lparr>vaddr = 100, vname = ''g'', defaultValue = CVInteger 0\<rparr>"
        and evalBody = "\<lambda>s c. (Disable, c)" and er = Disable
        and ?ctx5.0 = "createLocal 100 (CVInteger 0) (snd (pushFrame exContext exFunction))"
        and result = "CVInteger 0" and systemEval = "\<lambda>n a c. (CVBad, c)"]
    by (simp add: exFunction_def exContext_def checkConstant_def isScriptEval_def isVoid_def
        has_def pushFrame_def createLocal_def findLocal_def addDiag_def popFrame_def)
  have two: "CallExpression_evalImpl (\<lambda>n a c. (CVBad, c)) (\<lambda>e c. (CVInteger 6, c))
        exReturnFormal (User exShadow) None [OtherExpression PredefinedIntegerType True []]
        exContext
     = Inr (CVInteger 6, exContext)"
    by (simp add: CallExpression_evalImpl_def exShadow_def exReturnFormal_def exContext_def
        checkConstant_def isScriptEval_def isVoid_def has_def pushFrame_def createLocal_def
        findLocal_def popFrame_def)
  from one two show ?thesis by blast
qed

subsection \<open>C3: too few arguments\<close>

text \<open>
  C3: a subroutine with two formals without defaults, called with one ordered argument
  and no named one: after the binding of that argument, the diagnostic
  \<open>TooFewArguments\<close> with the counts 2 and 1 is added, and the call expression is bad.
\<close>

theorem fromArgs_too_few:
  assumes "arguments symbol = [a, b]"
    and "getInitializer a = None" and "getInitializer b = None"
  shows "bad (fst (CallExpression_fromArgs getInitializer bindArgument symbol thisClass
                     (Some [OrderedArgument e]) cn))
         \<and> diagnostics (snd (CallExpression_fromArgs getInitializer bindArgument symbol thisClass
                     (Some [OrderedArgument e]) cn))
           = diagnostics (snd (bindArgument (argType a) (direction a) e (isConstant a) cn))
             @ [TooFewArguments 2 1]"
  using assms
  by (simp add: CallExpression_fromArgs_def bindOne_def noteBound_def BindContext_addDiag_def
      badExpr_def split: prod.splits)

theorem fromArgs_too_few_witness:
  "bad (fst (CallExpression_fromArgs exNoDefault exBind exTwoArgs None
               (Some [OrderedArgument 1]) exCompilation))
   \<and> diagnostics (snd (CallExpression_fromArgs exNoDefault exBind exTwoArgs None
               (Some [OrderedArgument 1]) exCompilation))
     = [TooFewArguments 2 1]"
  using fromArgs_too_few [of exTwoArgs
      "\<lparr>faddr = 101, name = ''a'', argType = PredefinedIntegerType, direction = In, isConstant = False\<rparr>"
      "\<lparr>faddr = 102, name = ''b'', argType = PredefinedIntegerType, direction = In, isConstant = False\<rparr>"
      exNoDefault exBind None 1 exCompilation]
  by (simp add: exTwoArgs_def exNoDefault_def exBind_def exCompilation_def)

subsection \<open>C4: ordered after named arguments\<close>

lemma collectArgs_after_named:
  "namedArgs \<noteq> [] \<Longrightarrow> \<exists>x \<in> set args. \<not> isNamed x \<Longrightarrow>
   \<exists>cn1. collectArgs args orderedArgs namedArgs cn = (None, cn1)
         \<and> diagnostics cn1 \<noteq> [] \<and> last (diagnostics cn1) = MixingOrderedAndNamedArgs"
proof (induction args orderedArgs namedArgs cn rule: collectArgs.induct)
  case (1 orderedArgs namedArgs cn)
  then show ?case by simp
next
  case (2 n e rest orderedArgs namedArgs cn)
  then show ?case by (auto split: option.splits)
next
  case (3 rest orderedArgs namedArgs cn)
  then show ?case by (simp add: BindContext_addDiag_def)
next
  case (4 e rest orderedArgs namedArgs cn)
  then show ?case by (simp add: BindContext_addDiag_def)
qed

lemma collectArgs_mixed:
  "n \<noteq> [] \<Longrightarrow> \<not> isNamed x \<Longrightarrow>
   \<exists>cn1. collectArgs (pre @ NamedArgument n e # mid @ x # post) orderedArgs namedArgs cn
           = (None, cn1)
         \<and> diagnostics cn1 \<noteq> [] \<and> last (diagnostics cn1) = MixingOrderedAndNamedArgs"
proof (induction pre arbitrary: orderedArgs namedArgs cn)
  case Nil
  have ex: "\<exists>y \<in> set (mid @ x # post). \<not> isNamed y" using Nil by auto
  show ?case
  proof (cases "map_of namedArgs n")
    case None
    then show ?thesis
      using Nil collectArgs_after_named [OF _ ex, of "namedArgs @ [(n, e, False)]" orderedArgs cn]
      by simp
  next
    case (Some prev)
    then have ne: "namedArgs \<noteq> []" by auto
    show ?thesis
      using Nil Some
        collectArgs_after_named [OF ne ex, of orderedArgs
          "BindContext_addDiag (DuplicateArgAssignment n) cn"]
      by simp
  qed
next
  case (Cons p pre)
  show ?case
  proof (cases p)
    case (OrderedArgument s)
    then show ?thesis using Cons by (simp add: BindContext_addDiag_def)
  next
    case (NamedArgument m f)
    then show ?thesis using Cons by (simp split: option.splits)
  next
    case EmptyArgument
    then show ?thesis using Cons by (simp add: BindContext_addDiag_def)
  qed
qed

text \<open>
  C4 as stated covers every named argument. A named argument whose name is empty is not
  recorded, so the ordered argument after it is accepted: the call below is bound without
  a diagnostic and is not bad.
\<close>

theorem fromArgs_mixed_counterexample:
  "isNamed (NamedArgument [] (Some (1::nat))) \<and> \<not> isNamed (OrderedArgument (2::nat))
   \<and> \<not> bad (fst (CallExpression_fromArgs exNoDefault exBind exOneArg None
                    (Some [NamedArgument [] (Some 1), OrderedArgument 2]) exCompilation))
   \<and> diagnostics (snd (CallExpression_fromArgs exNoDefault exBind exOneArg None
                    (Some [NamedArgument [] (Some 1), OrderedArgument 2]) exCompilation)) = []"
  by (simp add: CallExpression_fromArgs_def exOneArg_def exNoDefault_def exBind_def
      exCompilation_def bindOne_def noteBound_def isError_def)

text \<open>
  C4 (amended): in every argument list in which an ordered or empty argument comes after
  a named argument with a non-empty name, the diagnostic \<open>MixingOrderedAndNamedArgs\<close> is
  the last one added, and the binding ends there with a bad expression.
\<close>

theorem fromArgs_mixed:
  assumes "n \<noteq> []" and "\<not> isNamed x"
  shows "\<exists>cn1. CallExpression_fromArgs getInitializer bindArgument symbol thisClass
               (Some (pre @ NamedArgument n e # mid @ x # post)) cn = (badExpr None, cn1)
           \<and> bad (badExpr None)
           \<and> diagnostics cn1 \<noteq> [] \<and> last (diagnostics cn1) = MixingOrderedAndNamedArgs"
proof -
  obtain cn1 where "collectArgs (pre @ NamedArgument n e # mid @ x # post) [] [] cn = (None, cn1)"
    and "diagnostics cn1 \<noteq> []" and "last (diagnostics cn1) = MixingOrderedAndNamedArgs"
    using collectArgs_mixed [OF assms] by blast
  then show ?thesis
    by (simp add: CallExpression_fromArgs_def badExpr_def)
qed

theorem fromArgs_mixed_witness:
  "CallExpression_fromArgs exNoDefault exBind exTwoArgs None
       (Some [NamedArgument ''b'' (Some 1), OrderedArgument 2]) exCompilation
     = (badExpr None, \<lparr>diagnostics = [MixingOrderedAndNamedArgs], nextNode = 0\<rparr>)"
  using fromArgs_mixed [of "''b''" "OrderedArgument (2::nat)" exNoDefault exBind exTwoArgs None
      "[]" "Some 1" "[]" "[]" exCompilation]
  by (simp add: CallExpression_fromArgs_def exCompilation_def BindContext_addDiag_def)

subsection \<open>C5: min:typ:max\<close>

text \<open>
  C5: the three operands are bound in turn, the selected one with no extra flag and the
  other two as unevaluated branches. The node that is built has the type of the operand
  the option selects, that operand is its selected one, and evaluating the node is
  evaluating that operand. The node is returned as it is, or wrapped in a bad expression
  when an operand is bad.
\<close>

theorem minTypMax_selected:
  "\<exists>mn ty mx cn1 cn2 cn3.
     create synMin (if minTypMax opts = Min then {} else {UnevaluatedBranch}) target cn = (mn, cn1)
     \<and> create synTyp (if minTypMax opts = Typ then {} else {UnevaluatedBranch}) target cn1 = (ty, cn2)
     \<and> create synMax (if minTypMax opts = Max then {} else {UnevaluatedBranch}) target cn2 = (mx, cn3)
     \<and> (\<exists>m. m = MinTypMaxExpression
                  (type_of (case minTypMax opts of Min \<Rightarrow> mn | Typ \<Rightarrow> ty | Max \<Rightarrow> mx))
                  mn ty mx (minTypMax opts)
          \<and> MinTypMaxExpression_fromSyntax create opts synMin synTyp synMax target cn
              = (if bad mn \<or> bad ty \<or> bad mx then badExpr (Some m) else m, cn3)
          \<and> selected m = (case minTypMax opts of Min \<Rightarrow> mn | Typ \<Rightarrow> ty | Max \<Rightarrow> mx)
          \<and> type_of m = type_of (selected m)
          \<and> MinTypMaxExpression_evalImpl eval m ctx
              = eval (case minTypMax opts of Min \<Rightarrow> mn | Typ \<Rightarrow> ty | Max \<Rightarrow> mx) ctx)"
  by (cases "minTypMax opts")
     (auto simp: MinTypMaxExpression_fromSyntax_def MinTypMaxExpression_evalImpl_def Let_def
        split: prod.splits)

subsection \<open>C6: hierarchical values in constant expressions\<close>

text \<open>
  C6 as stated lets the option \<open>allowHierarchicalConst\<close> suppress the error. In
  \<open>exContext\<close> the option is set, and verifying a hierarchical value still fails with the
  diagnostic.
\<close>

theorem hierarchical_option_counterexample:
  "allowHierarchicalConst (options exContext)
   \<and> fst (HierarchicalValueExpression_verifyConstantImpl ''top.x'' exContext) = False
   \<and> map code (diags (snd (HierarchicalValueExpression_verifyConstantImpl ''top.x'' exContext)))
       = [ConstEvalHierarchicalNameInCE ''top.x'']"
  by (simp add: exContext_def HierarchicalValueExpression_verifyConstantImpl_def addDiag_def)

text \<open>
  C6 (amended): whatever the value of \<open>allowHierarchicalConst\<close>, verifying a hierarchical
  value expression adds the hierarchical-name diagnostic and fails, and evaluating one
  returns the bad value and leaves the context as it was.
\<close>

theorem hierarchical_never_constant:
  "HierarchicalValueExpression_verifyConstantImpl nm
       (ctx\<lparr>options := (options ctx)\<lparr>allowHierarchicalConst := b\<rparr>\<rparr>)
     = (False, addDiag (ConstEvalHierarchicalNameInCE nm)
                 (ctx\<lparr>options := (options ctx)\<lparr>allowHierarchicalConst := b\<rparr>\<rparr>))
   \<and> map code (diags (addDiag (ConstEvalHierarchicalNameInCE nm)
                 (ctx\<lparr>options := (options ctx)\<lparr>allowHierarchicalConst := b\<rparr>\<rparr>)))
       = map code (diags ctx) @ [ConstEvalHierarchicalNameInCE nm]
   \<and> HierarchicalValueExpression_evalImpl nm
       (ctx\<lparr>options := (options ctx)\<lparr>allowHierarchicalConst := b\<rparr>\<rparr>)
     = (CVBad, ctx\<lparr>options := (options ctx)\<lparr>allowHierarchicalConst := b\<rparr>\<rparr>)"
  by (simp add: HierarchicalValueExpression_verifyConstantImpl_def
      HierarchicalValueExpression_evalImpl_def addDiag_def)
subsection \<open>C7: the canonical type is a fixpoint\<close>

lemma getCanonicalType_cached:
  "store this = Some t \<Longrightarrow> canonical t = Some c \<Longrightarrow> getCanonicalType n store this = Some (c, store)"
  by simp

declare getCanonicalType.simps [simp del]

lemma wfStore_nonalias:
  "wfStore store \<Longrightarrow> store a = Some t \<Longrightarrow> kind t \<noteq> TypeAlias \<Longrightarrow> canonical t = Some a"
  by (simp add: wfStore_def)

lemma wfStore_target:
  "wfStore store \<Longrightarrow> store a = Some t \<Longrightarrow> canonical t = Some c \<Longrightarrow>
   \<exists>tc. store c = Some tc \<and> kind tc \<noteq> TypeAlias"
  by (simp add: wfStore_def)

lemma wfStore_empty: "wfStore Map.empty"
  by (simp add: wfStore_def)

lemma wfStore_Type_ctor:
  assumes wf: "wfStore store" and k: "k \<noteq> TypeAlias"
  shows "wfStore (Type_ctor this k store)"
  unfolding wfStore_def Type_ctor_def
proof (intro allI impI)
  fix x u
  assume x: "(store(this \<mapsto> \<lparr>kind = k, canonical = Some this, targetType = None\<rparr>)) x = Some u"
  show "(kind u \<noteq> TypeAlias \<longrightarrow> canonical u = Some x) \<and>
        (\<forall>d. canonical u = Some d \<longrightarrow>
           (\<exists>td. (store(this \<mapsto> \<lparr>kind = k, canonical = Some this, targetType = None\<rparr>)) d
                    = Some td \<and> kind td \<noteq> TypeAlias))"
  proof (cases "x = this")
    case True
    then show ?thesis using x k by auto
  next
    case False
    then have xu: "store x = Some u" using x by simp
    show ?thesis
      using wfStore_nonalias [OF wf xu] wfStore_target [OF wf xu] k by auto
  qed
qed

lemma wfStore_TypeAlias_ctor:
  assumes wf: "wfStore store" and fresh: "store this = None"
  shows "wfStore (TypeAlias_ctor this target store)"
  unfolding wfStore_def TypeAlias_ctor_def
proof (intro allI impI)
  fix x u
  assume x: "(store(this \<mapsto> \<lparr>kind = TypeAlias, canonical = None, targetType = Some target\<rparr>)) x
               = Some u"
  show "(kind u \<noteq> TypeAlias \<longrightarrow> canonical u = Some x) \<and>
        (\<forall>d. canonical u = Some d \<longrightarrow>
           (\<exists>td. (store(this \<mapsto> \<lparr>kind = TypeAlias, canonical = None,
                                   targetType = Some target\<rparr>)) d
                    = Some td \<and> kind td \<noteq> TypeAlias))"
  proof (cases "x = this")
    case True
    then show ?thesis using x by auto
  next
    case False
    then have xu: "store x = Some u" using x by simp
    show ?thesis
      using wfStore_nonalias [OF wf xu] wfStore_target [OF wf xu] fresh by auto
  qed
qed

lemma wfStore_resolve:
  assumes wf: "wfStore store" and a: "store a = Some t" "kind t = TypeAlias"
    and c: "store c = Some tc" "kind tc \<noteq> TypeAlias"
  shows "wfStore (store(a \<mapsto> t\<lparr>canonical := Some c\<rparr>))"
  unfolding wfStore_def
proof (intro allI impI)
  fix x u
  assume x: "(store(a \<mapsto> t\<lparr>canonical := Some c\<rparr>)) x = Some u"
  have ca: "c \<noteq> a" using a c by auto
  show "(kind u \<noteq> TypeAlias \<longrightarrow> canonical u = Some x) \<and>
        (\<forall>d. canonical u = Some d \<longrightarrow>
           (\<exists>td. (store(a \<mapsto> t\<lparr>canonical := Some c\<rparr>)) d = Some td \<and> kind td \<noteq> TypeAlias))"
  proof (cases "x = a")
    case True
    then have "u = t\<lparr>canonical := Some c\<rparr>" using x by simp
    then show ?thesis using a c ca by simp
  next
    case False
    then have xu: "store x = Some u" using x by simp
    have one: "kind u \<noteq> TypeAlias \<longrightarrow> canonical u = Some x"
      using wfStore_nonalias [OF wf xu] by blast
    have two: "\<forall>d. canonical u = Some d \<longrightarrow>
           (\<exists>td. (store(a \<mapsto> t\<lparr>canonical := Some c\<rparr>)) d = Some td \<and> kind td \<noteq> TypeAlias)"
    proof (intro allI impI)
      fix d assume "canonical u = Some d"
      then obtain td where td: "store d = Some td" "kind td \<noteq> TypeAlias"
        using wfStore_target [OF wf xu] by blast
      then have "d \<noteq> a" using a by auto
      then show "\<exists>td. (store(a \<mapsto> t\<lparr>canonical := Some c\<rparr>)) d = Some td \<and> kind td \<noteq> TypeAlias"
        using td by simp
    qed
    from one two show ?thesis by blast
  qed
qed

lemma sameKinds_refl: "sameKinds s s"
  by (simp add: sameKinds_def)

lemma sameKinds_trans: "sameKinds s1 s2 \<Longrightarrow> sameKinds s2 s3 \<Longrightarrow> sameKinds s1 s3"
  by (simp add: sameKinds_def)

lemma sameKinds_upd:
  "s a = Some t \<Longrightarrow> sameKinds (s(a \<mapsto> t\<lparr>canonical := cc\<rparr>)) s"
  by (simp add: sameKinds_def)

lemma sameKinds_alias:
  "sameKinds s1 s \<Longrightarrow> s a = Some t \<Longrightarrow> kind t = TypeAlias \<Longrightarrow> s1 a = Some t1 \<Longrightarrow> kind t1 = TypeAlias"
  unfolding sameKinds_def
  by (metis option.simps(9) option.inject)

lemma sameKinds_exists:
  "sameKinds s1 s \<Longrightarrow> s a = Some t \<Longrightarrow> \<exists>t1. s1 a = Some t1"
  unfolding sameKinds_def
  by (metis option.simps(9) option.map_disc_iff option.exhaust)

text \<open>What a call of \<open>getCanonicalType\<close> keeps, given what \<open>resolveCanonical\<close> keeps.\<close>

lemma getCanonicalType_keeps_if:
  assumes r: "\<And>store a t store1. wfStore store \<Longrightarrow> store a = Some t \<Longrightarrow> kind t = TypeAlias \<Longrightarrow>
                resolveCanonical n store a = Some store1 \<Longrightarrow>
                wfStore store1 \<and> sameKinds store1 store"
    and wf: "wfStore store"
    and g: "getCanonicalType n store a = Some (c, store1)"
  shows "wfStore store1 \<and> sameKinds store1 store
      \<and> (\<exists>tc. store1 c = Some tc \<and> kind tc \<noteq> TypeAlias)
      \<and> (\<exists>t. store1 a = Some t \<and> canonical t = Some c)"
proof -
  obtain t where t: "store a = Some t"
    using g by (auto simp: getCanonicalType.simps split: option.splits)
  show ?thesis
  proof (cases "canonical t")
    case (Some d)
    then have "c = d" "store1 = store" using g t by (auto simp: getCanonicalType.simps)
    then show ?thesis using wf t Some wfStore_target [OF wf t Some] sameKinds_refl by auto
  next
    case None
    then have al: "kind t = TypeAlias" using wfStore_nonalias [OF wf t] by auto
    from g t None obtain t1 where
      rs: "resolveCanonical n store a = Some store1" and t1: "store1 a = Some t1"
      and ct1: "canonical t1 = Some c"
      by (auto simp: getCanonicalType.simps split: option.splits)
    have w1: "wfStore store1" and k1: "sameKinds store1 store"
      using r [OF wf t al rs] by blast+
    show ?thesis using w1 k1 t1 ct1 wfStore_target [OF w1 t1 ct1] by auto
  qed
qed

lemma resolveCanonical_keeps:
  "wfStore store \<Longrightarrow> store a = Some t \<Longrightarrow> kind t = TypeAlias \<Longrightarrow>
   resolveCanonical n store a = Some store1 \<Longrightarrow>
   wfStore store1 \<and> sameKinds store1 store"
proof (induction n arbitrary: store a t store1)
  case 0
  then show ?case by simp
next
  case (Suc n)
  from Suc.prems obtain target c store2 t2 where
    g: "getCanonicalType n store target = Some (c, store2)" and t2: "store2 a = Some t2"
    and s1: "store1 = store2(a \<mapsto> t2\<lparr>canonical := Some c\<rparr>)"
    by (auto split: option.splits)
  have keeps: "wfStore store2 \<and> sameKinds store2 store
      \<and> (\<exists>tc. store2 c = Some tc \<and> kind tc \<noteq> TypeAlias)
      \<and> (\<exists>t. store2 target = Some t \<and> canonical t = Some c)"
    using getCanonicalType_keeps_if [of n store target c store2] Suc.IH Suc.prems(1) g
    by blast
  then have w2: "wfStore store2" and k2: "sameKinds store2 store" by blast+
  from keeps obtain tc where tc: "store2 c = Some tc" "kind tc \<noteq> TypeAlias" by blast
  have al2: "kind t2 = TypeAlias" using sameKinds_alias [OF k2 Suc.prems(2,3) t2] .
  have "wfStore store1" unfolding s1 using wfStore_resolve [OF w2 t2 al2 tc] .
  moreover have "sameKinds store1 store"
    unfolding s1
    using sameKinds_trans [OF sameKinds_upd [of store2 a t2 "Some c"] k2] t2 by blast
  ultimately show ?case by blast
qed

lemma getCanonicalType_keeps:
  "wfStore store \<Longrightarrow> getCanonicalType n store a = Some (c, store1) \<Longrightarrow>
   wfStore store1 \<and> sameKinds store1 store
      \<and> (\<exists>tc. store1 c = Some tc \<and> kind tc \<noteq> TypeAlias)
      \<and> (\<exists>t. store1 a = Some t \<and> canonical t = Some c)"
  using getCanonicalType_keeps_if [of n store a c store1] resolveCanonical_keeps
  by blast

text \<open>
  A call returns when the bound covers the chain of aliases up to a resolved type.
\<close>

lemma getCanonicalType_total:
  "wfStore store \<Longrightarrow> resolvable n store a \<Longrightarrow>
   \<exists>c store1. getCanonicalType n store a = Some (c, store1)"
proof (induction n arbitrary: store a)
  case 0
  then show ?case by (auto simp: getCanonicalType.simps split: option.splits)
next
  case (Suc n)
  from Suc.prems(2) obtain t where t: "store a = Some t" by (auto split: option.splits)
  show ?case
  proof (cases "canonical t")
    case (Some c)
    then show ?thesis using t by (simp add: getCanonicalType.simps)
  next
    case None
    with Suc.prems(2) t obtain target where tg: "targetType t = Some target"
      and rt: "resolvable n store target"
      by (auto split: option.splits)
    from Suc.IH [OF Suc.prems(1) rt] obtain c store2 where
      g: "getCanonicalType n store target = Some (c, store2)" by blast
    have k: "sameKinds store2 store"
      using getCanonicalType_keeps [OF Suc.prems(1) g] by blast
    obtain t2 where t2: "store2 a = Some t2" using sameKinds_exists [OF k t] by blast
    have r: "resolveCanonical (Suc n) store a = Some (store2(a \<mapsto> t2\<lparr>canonical := Some c\<rparr>))"
      using t tg g t2 by simp
    show ?thesis
      using t None r by (simp add: getCanonicalType.simps)
  qed
qed

text \<open>
  C7: in a store as the constructors build it, the canonical type \<open>c\<close> of a type \<open>a\<close> is
  its own canonical type, and every later call for \<open>a\<close> or for \<open>c\<close> returns \<open>c\<close> and
  changes nothing; for a type that is no alias, \<open>c\<close> is the type itself and the store is
  untouched.
\<close>

theorem canonical_fixpoint:
  assumes "wfStore store" and "getCanonicalType n store a = Some (c, store1)"
  shows "getCanonicalType m store1 c = Some (c, store1)
         \<and> getCanonicalType m store1 a = Some (c, store1)
         \<and> wfStore store1
         \<and> (\<forall>t. store a = Some t \<and> kind t \<noteq> TypeAlias \<longrightarrow> c = a \<and> store1 = store)"
proof -
  from getCanonicalType_keeps [OF assms] obtain tc t1 where
    w1: "wfStore store1" and tc: "store1 c = Some tc" "kind tc \<noteq> TypeAlias"
    and t1: "store1 a = Some t1" "canonical t1 = Some c"
    by blast
  have cc: "canonical tc = Some c" using wfStore_nonalias [OF w1 tc] .
  have one: "getCanonicalType m store1 c = Some (c, store1)"
    using getCanonicalType_cached [of store1 c tc c m] tc(1) cc by blast
  have two: "getCanonicalType m store1 a = Some (c, store1)"
    using getCanonicalType_cached [of store1 a t1 c m] t1 by blast
  have three: "\<forall>t. store a = Some t \<and> kind t \<noteq> TypeAlias \<longrightarrow> c = a \<and> store1 = store"
  proof (intro allI impI)
    fix t assume h: "store a = Some t \<and> kind t \<noteq> TypeAlias"
    then have "canonical t = Some a" using wfStore_nonalias [OF assms(1)] by blast
    then show "c = a \<and> store1 = store"
      using assms(2) h by (simp add: getCanonicalType.simps)
  qed
  from one two w1 three show ?thesis by blast
qed

lemma wfStore_exStore: "wfStore exStore"
  unfolding exStore_def
  by (intro wfStore_TypeAlias_ctor wfStore_Type_ctor wfStore_empty)
     (simp_all add: TypeAlias_ctor_def Type_ctor_def)

lemma getCanonicalType_exStore:
  "getCanonicalType (Suc (Suc 0)) exStore 3 = Some (1, exResolved)"
  by (simp add: getCanonicalType.simps exStore_def exResolved_def TypeAlias_ctor_def
      Type_ctor_def)

text \<open>The alias at 3 of the alias at 2 of the integer type at 1 resolves to 1, which stays.\<close>

theorem canonical_fixpoint_witness:
  "wfStore exStore
   \<and> getCanonicalType (Suc (Suc 0)) exStore 3 = Some (1, exResolved)
   \<and> getCanonicalType 0 exResolved 1 = Some (1, exResolved)
   \<and> getCanonicalType 0 exResolved 3 = Some (1, exResolved)"
  using canonical_fixpoint [OF wfStore_exStore getCanonicalType_exStore, of 0]
    wfStore_exStore getCanonicalType_exStore
  by simp

subsection \<open>C8: explicit imports\<close>

text \<open>
  The part of C8 that holds: once an import has been accessed, every later access returns
  what the first one did and changes nothing, whatever the design holds by then.
\<close>

lemma importedSymbol_cached:
  "importedSymbol root this = (s, this1, root1) \<Longrightarrow>
   importedSymbol root' this1 = (s, this1, root') \<and> initialized this1 \<and> root1 = root"
  by (auto simp: importedSymbol_def Let_def split: if_splits option.splits)

text \<open>
  C8 at an import of \<open>q::x\<close> in a design without a package \<open>q\<close>: the access returns no
  symbol and marks the import initialized, no error is reported to the root, and the next
  access does the same.
\<close>

theorem importedSymbol_unresolved_silent:
  "importedSymbol exRoot exImport = (None, exImport\<lparr>initialized := True\<rparr>, exRoot)
   \<and> errors exRoot = []
   \<and> importedSymbol exRoot (exImport\<lparr>initialized := True\<rparr>)
       = (None, exImport\<lparr>initialized := True\<rparr>, exRoot)"
  by (simp add: importedSymbol_def exRoot_def exImport_def findPackage_def Let_def)

subsection \<open>C9: the recursion guard of the constant-ness check\<close>




















subsection \<open>C10: ports without a direction or a type\<close>

lemma portArguments_step:
  assumes "portArguments (p # rest) lastType lastDirection = Inr args"
  shows "\<exists>dir spec arg args1 lastType1.
    portDirectionOf p lastDirection = Inr (dir, spec)
    \<and> args = arg # args1
    \<and> portArguments rest lastType1 dir = Inr args1
    \<and> argDirection arg = dir
    \<and> argLazyType arg = typeOfLast lastType1
    \<and> (dataType p = None \<longrightarrow>
         argLazyType arg = (if spec then LogicType else typeOfLast lastType))"
proof -
  obtain dir spec where d: "portDirectionOf p lastDirection = Inr (dir, spec)"
    using assms by (cases "portDirectionOf p lastDirection") auto
  define pick where "pick =
    (case dataType p of
       Some dt \<Rightarrow> (FromSyntax dt, Some dt)
     | None \<Rightarrow> if spec \<or> lastType = None then (LogicType, None)
               else (FromSyntax (the lastType), lastType))"
  obtain ty lastType1 where pk: "pick = (ty, lastType1)" by (cases pick)
  have step: "portArguments (p # rest) lastType lastDirection =
     (case portArguments rest lastType1 dir of
        Inl a \<Rightarrow> Inl a
      | Inr as \<Rightarrow>
          Inr (\<lparr>argName = declaratorName p, argDirection = dir,
                argIsConst = (dir = ConstRef), argLazyType = ty,
                argInitializer = declaratorInitializer p\<rparr> # as))"
    using d pk by (simp add: pick_def)
  obtain args1 where r: "portArguments rest lastType1 dir = Inr args1"
    and a: "args = \<lparr>argName = declaratorName p, argDirection = dir,
                argIsConst = (dir = ConstRef), argLazyType = ty,
                argInitializer = declaratorInitializer p\<rparr> # args1"
    using assms unfolding step by (cases "portArguments rest lastType1 dir") auto
  have t1: "ty = typeOfLast lastType1"
    using pk unfolding pick_def typeOfLast_def
    by (auto split: option.splits if_splits)
  have t2: "dataType p = None \<longrightarrow> ty = (if spec then LogicType else typeOfLast lastType)"
    using pk unfolding pick_def typeOfLast_def
    by (auto split: option.splits if_splits)
  show ?thesis using d r a t1 t2 by auto
qed

lemma portDirectionOf_Unknown:
  "portDirectionOf p ld = Inr (dir, spec) \<Longrightarrow>
   (portDirection p = Unknown \<longrightarrow> dir = ld) \<and> (spec = (portDirection p \<noteq> Unknown))"
  by (auto simp: portDirectionOf_def split: TokenKind.splits)

lemma portArguments_general:
  "portArguments ports lastType lastDirection = Inr args \<Longrightarrow>
   length args = length ports
   \<and> (\<forall>i < length ports.
        (portDirection (ports ! i) = Unknown \<longrightarrow>
           argDirection (args ! i) = (if i = 0 then lastDirection else argDirection (args ! (i - 1))))
        \<and> (dataType (ports ! i) = None \<longrightarrow>
             argLazyType (args ! i) =
               (if portDirection (ports ! i) \<noteq> Unknown then LogicType
                else if i = 0 then typeOfLast lastType
                else argLazyType (args ! (i - 1)))))"
proof (induction ports arbitrary: lastType lastDirection args)
  case Nil
  then show ?case by simp
next
  case (Cons p rest)
  from portArguments_step [OF Cons.prems] obtain dir spec arg args1 lastType1 where
    d: "portDirectionOf p lastDirection = Inr (dir, spec)"
    and a: "args = arg # args1"
    and r: "portArguments rest lastType1 dir = Inr args1"
    and ad: "argDirection arg = dir"
    and at: "argLazyType arg = typeOfLast lastType1"
    and an: "dataType p = None \<longrightarrow>
               argLazyType arg = (if spec then LogicType else typeOfLast lastType)"
    by (elim exE conjE) (rule that)
  note ih = Cons.IH [OF r]
  from portDirectionOf_Unknown [OF d]
  have du: "portDirection p = Unknown \<longrightarrow> dir = lastDirection"
    and sp: "spec = (portDirection p \<noteq> Unknown)" by blast+
  have len: "length args = length (p # rest)" using ih a by simp
  have idx: "\<forall>i < length (p # rest).
        (portDirection ((p # rest) ! i) = Unknown \<longrightarrow>
           argDirection (args ! i) = (if i = 0 then lastDirection else argDirection (args ! (i - 1))))
        \<and> (dataType ((p # rest) ! i) = None \<longrightarrow>
             argLazyType (args ! i) =
               (if portDirection ((p # rest) ! i) \<noteq> Unknown then LogicType
                else if i = 0 then typeOfLast lastType
                else argLazyType (args ! (i - 1))))"
  proof (intro allI impI)
    fix i assume i: "i < length (p # rest)"
    show "(portDirection ((p # rest) ! i) = Unknown \<longrightarrow>
           argDirection (args ! i) = (if i = 0 then lastDirection else argDirection (args ! (i - 1))))
        \<and> (dataType ((p # rest) ! i) = None \<longrightarrow>
             argLazyType (args ! i) =
               (if portDirection ((p # rest) ! i) \<noteq> Unknown then LogicType
                else if i = 0 then typeOfLast lastType
                else argLazyType (args ! (i - 1))))"
    proof (cases i)
      case 0
      then show ?thesis using a ad du an sp by simp
    next
      case (Suc j)
      then have j: "j < length rest" using i by simp
      from ih j have
        "(portDirection (rest ! j) = Unknown \<longrightarrow>
           argDirection (args1 ! j) = (if j = 0 then dir else argDirection (args1 ! (j - 1))))
        \<and> (dataType (rest ! j) = None \<longrightarrow>
             argLazyType (args1 ! j) =
               (if portDirection (rest ! j) \<noteq> Unknown then LogicType
                else if j = 0 then typeOfLast lastType1
                else argLazyType (args1 ! (j - 1))))" by blast
      then show ?thesis using Suc a ad at by (cases j) auto
    qed
  qed
  from len idx show ?case by blast
qed

text \<open>
  C10: in the arguments built from a port list, a port without a direction keyword has
  the direction of the port before it, the first one \<open>In\<close>; a port without a data type
  has the logic type when it has a direction keyword or is the first port, and the type
  of the port before it otherwise.
\<close>

theorem ports_inherit:
  assumes "fromSyntax_arguments (Some ports) = Inr args"
  shows "length args = length ports
   \<and> (\<forall>i < length ports.
        (portDirection (ports ! i) = Unknown \<longrightarrow>
           argDirection (args ! i) = (if i = 0 then In else argDirection (args ! (i - 1))))
        \<and> (dataType (ports ! i) = None \<longrightarrow>
             argLazyType (args ! i) =
               (if portDirection (ports ! i) \<noteq> Unknown \<or> i = 0 then LogicType
                else argLazyType (args ! (i - 1)))))"
  using portArguments_general [of ports None In args] assms
  by (simp add: fromSyntax_arguments_def typeOfLast_def)

theorem ports_inherit_witness:
  "fromSyntax_arguments (Some exPorts) = Inr exArgs
   \<and> argDirection (exArgs ! 1) = In
   \<and> argLazyType (exArgs ! 1) = FromSyntax ''int''
   \<and> argLazyType (exArgs ! 2) = LogicType"
proof -
  have ev: "fromSyntax_arguments (Some exPorts) = Inr exArgs"
    by (simp add: fromSyntax_arguments_def exPorts_def exArgs_def portDirectionOf_def)
  show ?thesis
    using ports_inherit [OF ev] ev by (simp add: exArgs_def)
qed

end
